theory Spec2Isabelle
  imports Main
begin

section \<open>JavaScript values\<close>

text \<open>
  The values \<open>JSON.parse\<close> can produce. An object is the list of its own properties in
  property order; \<open>JSON.parse\<close> keeps one entry per key. A number is only ever tested
  for truthiness and compared with strings by the code below, so integers stand for it.
\<close>

datatype json =
    JNull
  | JBool bool
  | JNum int
  | JStr string
  | JArr "json list"
  | JObj "(string \<times> json) list"

text \<open>The outcome of \<open>JSON.parse(frame)\<close>: it throws a SyntaxError or returns a value.\<close>

datatype parsed = Throws | Parsed json

datatype error = SyntaxError | TypeError | Error string | DOMException string

text \<open>JavaScript truthiness, as tested by \<open>if (message.to)\<close>.\<close>

fun truthy :: "json \<Rightarrow> bool" where
  "truthy JNull = False"
| "truthy (JBool b) = b"
| "truthy (JNum n) = (n \<noteq> 0)"
| "truthy (JStr s) = (s \<noteq> [])"
| "truthy (JArr _) = True"
| "truthy (JObj _) = True"

text \<open>
  The object spread \<open>{...message, from: v}\<close>: the own properties in order, with
  \<open>from\<close> overwritten where it stands or added at the end.
\<close>

fun set_prop :: "string \<Rightarrow> json \<Rightarrow> (string \<times> json) list \<Rightarrow> (string \<times> json) list" where
  "set_prop k v [] = [(k, v)]"
| "set_prop k v (p # ps) = (if fst p = k then (k, v) # ps else p # set_prop k v ps)"

section \<open>The signaling server (webrtc-signaling-server.js)\<close>

datatype ready_state = CONNECTING | OPEN | CLOSING | CLOSED

text \<open>
  A WebSocket as the server sees it: its \<open>readyState\<close> and the messages handed to
  \<open>send\<close> (each is the value given to \<open>JSON.stringify\<close>), oldest first.
\<close>

record ws =
  readyState :: ready_state
  sent :: "json list"

text \<open>
  \<open>const clients = new Map()\<close>: a JavaScript Map iterates in insertion order,
  \<open>set\<close> on a present key replaces the value in place, \<open>delete\<close> on an absent key
  does nothing.
\<close>

type_synonym clients = "(string \<times> ws) list"

definition Map_get :: "clients \<Rightarrow> string \<Rightarrow> ws option" where
  "Map_get cs k = map_of cs k"

fun Map_set :: "string \<Rightarrow> ws \<Rightarrow> clients \<Rightarrow> clients" where
  "Map_set k v [] = [(k, v)]"
| "Map_set k v (p # ps) = (if fst p = k then (k, v) # ps else p # Map_set k v ps)"

definition Map_delete :: "string \<Rightarrow> clients \<Rightarrow> clients" where
  "Map_delete k cs = filter (\<lambda>p. fst p \<noteq> k) cs"

definition Map_keys :: "clients \<Rightarrow> string list" where
  "Map_keys cs = map fst cs"

text \<open>\<open>client.send(JSON.stringify(message))\<close> on one socket.\<close>

definition ws_send :: "json \<Rightarrow> ws \<Rightarrow> ws" where
  "ws_send m c = c\<lparr>sent := sent c @ [m]\<rparr>"

text \<open>
  \<open>sendToClient(clientId, message)\<close>. The first argument is \<open>message.to\<close> or the
  sender's id, so it is any value; the Map's keys are strings, and only a string finds
  one. A missing or not open client gets a console warning and nothing else happens.
\<close>

fun sendToClient :: "json \<Rightarrow> json \<Rightarrow> clients \<Rightarrow> clients" where
  "sendToClient (JStr k) message cs =
     (case Map_get cs k of
        Some client \<Rightarrow>
          (if readyState client = OPEN
           then map (\<lambda>p. if fst p = k then (fst p, ws_send message (snd p)) else p) cs
           else cs)
      | None \<Rightarrow> cs)"
| "sendToClient _ message cs = cs"

text \<open>\<open>broadcast(message, excludeClientId)\<close>: \<open>clients.forEach\<close> in insertion order.\<close>

definition broadcast :: "json \<Rightarrow> string \<Rightarrow> clients \<Rightarrow> clients" where
  "broadcast message excludeClientId cs =
     map (\<lambda>p. if fst p \<noteq> excludeClientId \<and> readyState (snd p) = OPEN
               then (fst p, ws_send message (snd p)) else p) cs"

text \<open>
  \<open>handleMessage(fromClientId, message)\<close>. Reading \<open>message.type\<close> of \<open>null\<close>
  throws a TypeError; of a number, string, boolean or array it is \<open>undefined\<close>, which
  the \<open>switch\<close> sends to \<open>default\<close>. The console calls are not modelled.
\<close>

definition forwarded_types :: "json option set" where
  "forwarded_types = {Some (JStr ''offer''), Some (JStr ''answer''), Some (JStr ''ice-candidate'')}"

fun handleMessage :: "string \<Rightarrow> json \<Rightarrow> clients \<Rightarrow> error + clients" where
  "handleMessage fromClientId JNull cs = Inl TypeError"
| "handleMessage fromClientId (JObj ps) cs =
     (if map_of ps ''type'' \<in> forwarded_types then
        (case map_of ps ''to'' of
           Some t \<Rightarrow>
             (if truthy t
              then Inr (sendToClient t (JObj (set_prop ''from'' (JStr fromClientId) ps)) cs)
              else Inr (broadcast (JObj ps) fromClientId cs))
         | None \<Rightarrow> Inr (broadcast (JObj ps) fromClientId cs))
      else if map_of ps ''type'' = Some (JStr ''join-room'') then Inr cs
      else if map_of ps ''type'' = Some (JStr ''list-peers'') then
        Inr (sendToClient (JStr fromClientId)
               (JObj [(''type'', JStr ''peers-list''),
                      (''peers'', JArr (map JStr (filter (\<lambda>k. k \<noteq> fromClientId) (Map_keys cs))))])
               cs)
      else Inr cs)"
| "handleMessage fromClientId _ cs = Inr cs"

text \<open>
  \<open>ws.on('message', ...)\<close>: the \<open>try\<close> block around \<open>JSON.parse\<close> and
  \<open>handleMessage\<close>; the \<open>catch\<close> only writes to the console. The handler takes the
  outcome of \<open>JSON.parse\<close> on the frame.
\<close>

definition on_message :: "string \<Rightarrow> parsed \<Rightarrow> clients \<Rightarrow> clients" where
  "on_message clientId frame cs =
     (case frame of
        Throws \<Rightarrow> cs
      | Parsed data \<Rightarrow> (case handleMessage clientId data cs of Inl e \<Rightarrow> cs | Inr cs' \<Rightarrow> cs'))"

text \<open>
  \<open>generateClientId()\<close>: the arguments are the two strings
  \<open>Math.random().toString(36)\<close>, such as \<open>0.k3x9\<close>.
\<close>

definition substring :: "nat \<Rightarrow> nat \<Rightarrow> string \<Rightarrow> string" where
  "substring a b s = take (b - a) (drop a s)"

definition generateClientId :: "string \<Rightarrow> string \<Rightarrow> string" where
  "generateClientId r1 r2 = substring 2 15 r1 @ substring 2 15 r2"

text \<open>
  \<open>wss.on('connection', ...)\<close>: the id is generated, the new open socket is stored
  under it and told its id. The handler returns the id with the new registry.
\<close>

definition on_connection :: "string \<Rightarrow> string \<Rightarrow> clients \<Rightarrow> string \<times> clients" where
  "on_connection r1 r2 cs =
     (let clientId = generateClientId r1 r2
      in (clientId,
          Map_set clientId
            \<lparr>readyState = OPEN,
             sent = [JObj [(''type'', JStr ''client-id''), (''id'', JStr clientId)]]\<rparr> cs))"

text \<open>\<open>ws.on('close', ...)\<close> of the socket registered as \<open>clientId\<close>.\<close>

definition on_close :: "string \<Rightarrow> clients \<Rightarrow> clients" where
  "on_close clientId cs =
     broadcast (JObj [(''type'', JStr ''peer-disconnected''), (''peerId'', JStr clientId)])
       clientId (Map_delete clientId cs)"

text \<open>What a registered client has been sent so far; nothing for an id not in the Map.\<close>

definition outbox :: "clients \<Rightarrow> string \<Rightarrow> json list" where
  "outbox cs k = (case Map_get cs k of Some c \<Rightarrow> sent c | None \<Rightarrow> [])"

text \<open>The frames of one client, handled one after the other as they arrive.\<close>

fun on_messages :: "string \<Rightarrow> parsed list \<Rightarrow> clients \<Rightarrow> clients" where
  "on_messages clientId [] cs = cs"
| "on_messages clientId (frame # frames) cs =
     on_messages clientId frames (on_message clientId frame cs)"

text \<open>
  The frames of several clients in the order in which their message events fire, each
  with the id of the connection it came in on. A handler runs to its end before the
  next event is taken.
\<close>

fun on_frames :: "(string \<times> parsed) list \<Rightarrow> clients \<Rightarrow> clients" where
  "on_frames [] cs = cs"
| "on_frames (ev # evs) cs = on_frames evs (on_message (fst ev) (snd ev) cs)"

section \<open>The negotiation manager (webrtc-complete-example.js)\<close>

text \<open>
  The browser's \<open>RTCPeerConnection\<close> is not code of the repository. The manager's
  use of it is recorded as the list of calls made on it, oldest first; what each call
  gives (a rejected promise or a value) is the browser's answer, a function of the calls
  made before and of the call. \<open>new RTCSessionDescription(d)\<close> and
  \<open>new RTCIceCandidate(c)\<close> are part of the call they feed. A property that a message
  lacks reads as \<open>undefined\<close>, here \<open>None\<close>.
\<close>

datatype pc_call =
    AddTrack string
  | CreateOffer
  | CreateAnswer
  | SetLocalDescription json
  | SetRemoteDescription "json option"
  | AddIceCandidate "json option"

type_synonym rtc = "pc_call list \<Rightarrow> pc_call \<Rightarrow> error + json"

text \<open>
  The fields of \<open>WebRTCManager\<close> that signaling reads or writes: \<open>localStream\<close>
  (the kinds of its tracks), \<open>peerConnection\<close> (\<open>null\<close> or the calls made on it),
  \<open>isInitiator\<close>, and the messages given to \<open>this.signaling.send\<close>.
\<close>

record manager =
  localStream :: "string list option"
  peerConnection :: "pc_call list option"
  isInitiator :: bool
  signaling_sent :: "json list"

text \<open>A call on \<open>this.peerConnection\<close>; on \<open>null\<close> it is a TypeError.\<close>

definition pc_invoke :: "rtc \<Rightarrow> pc_call \<Rightarrow> manager \<Rightarrow> (error + json) \<times> manager" where
  "pc_invoke browser c m =
     (case peerConnection m of
        None \<Rightarrow> (Inl TypeError, m)
      | Some calls \<Rightarrow> (browser calls c, m\<lparr>peerConnection := Some (calls @ [c])\<rparr>))"

definition signaling_send :: "json \<Rightarrow> manager \<Rightarrow> manager" where
  "signaling_send data m = m\<lparr>signaling_sent := signaling_sent m @ [data]\<rparr>"

definition createPeerConnection :: "manager \<Rightarrow> manager" where
  "createPeerConnection m =
     m\<lparr>peerConnection :=
         Some (case localStream m of None \<Rightarrow> [] | Some tracks \<Rightarrow> map AddTrack tracks)\<rparr>"

definition initiateCall :: "rtc \<Rightarrow> manager \<Rightarrow> (error + json) \<times> manager" where
  "initiateCall browser m =
     (let m1 = (if peerConnection m = None then createPeerConnection m else m);
          m2 = m1\<lparr>isInitiator := True\<rparr>
      in case pc_invoke browser CreateOffer m2 of
           (Inl e, m3) \<Rightarrow> (Inl e, m3)
         | (Inr offer, m3) \<Rightarrow>
             (case pc_invoke browser (SetLocalDescription offer) m3 of
                (Inl e, m4) \<Rightarrow> (Inl e, m4)
              | (Inr _, m4) \<Rightarrow>
                  (Inr offer,
                   signaling_send (JObj [(''type'', JStr ''offer''), (''offer'', offer)]) m4)))"

definition handleOffer :: "rtc \<Rightarrow> json option \<Rightarrow> manager \<Rightarrow> (error + json) \<times> manager" where
  "handleOffer browser offer m =
     (let m1 = (if peerConnection m = None then createPeerConnection m else m);
          m2 = m1\<lparr>isInitiator := False\<rparr>
      in case pc_invoke browser (SetRemoteDescription offer) m2 of
           (Inl e, m3) \<Rightarrow> (Inl e, m3)
         | (Inr _, m3) \<Rightarrow>
             (case pc_invoke browser CreateAnswer m3 of
                (Inl e, m4) \<Rightarrow> (Inl e, m4)
              | (Inr answer, m4) \<Rightarrow>
                  (case pc_invoke browser (SetLocalDescription answer) m4 of
                     (Inl e, m5) \<Rightarrow> (Inl e, m5)
                   | (Inr _, m5) \<Rightarrow>
                       (Inr answer,
                        signaling_send
                          (JObj [(''type'', JStr ''answer''), (''answer'', answer)]) m5))))"

definition handleAnswer :: "rtc \<Rightarrow> json option \<Rightarrow> manager \<Rightarrow> (error + unit) \<times> manager" where
  "handleAnswer browser answer m =
     (if peerConnection m = None then (Inl (Error ''Peer connection not created''), m)
      else case pc_invoke browser (SetRemoteDescription answer) m of
             (Inl e, m1) \<Rightarrow> (Inl e, m1)
           | (Inr _, m1) \<Rightarrow> (Inr (), m1))"

definition handleIceCandidate :: "rtc \<Rightarrow> json option \<Rightarrow> manager \<Rightarrow> (error + unit) \<times> manager" where
  "handleIceCandidate browser candidate m =
     (if peerConnection m = None then (Inl (Error ''Peer connection not created''), m)
      else case pc_invoke browser (AddIceCandidate candidate) m of
             (Inl e, m1) \<Rightarrow> (Inl e, m1)
           | (Inr _, m1) \<Rightarrow> (Inr (), m1))"

text \<open>
  \<open>handleSignalingMessage(event)\<close>, given the outcome of \<open>JSON.parse(event.data)\<close>.
  A throw is the rejection of the promise the async function returns.
\<close>

fun dispatch :: "rtc \<Rightarrow> json \<Rightarrow> manager \<Rightarrow> (error + unit) \<times> manager" where
  "dispatch browser JNull m = (Inl TypeError, m)"
| "dispatch browser (JObj ps) m =
     (if map_of ps ''type'' = Some (JStr ''offer'') then
        (case handleOffer browser (map_of ps ''offer'') m of
           (Inl e, m1) \<Rightarrow> (Inl e, m1)
         | (Inr _, m1) \<Rightarrow> (Inr (), m1))
      else if map_of ps ''type'' = Some (JStr ''answer'') then
        handleAnswer browser (map_of ps ''answer'') m
      else if map_of ps ''type'' = Some (JStr ''ice-candidate'') then
        handleIceCandidate browser (map_of ps ''candidate'') m
      else (Inr (), m))"
| "dispatch browser _ m = (Inr (), m)"

definition handleSignalingMessage :: "rtc \<Rightarrow> parsed \<Rightarrow> manager \<Rightarrow> (error + unit) \<times> manager" where
  "handleSignalingMessage browser event_data m =
     (case event_data of
        Throws \<Rightarrow> (Inl SyntaxError, m)
      | Parsed message \<Rightarrow> dispatch browser message m)"

text \<open>The manager as its constructor leaves it.\<close>

definition new_manager :: manager where
  "new_manager =
     \<lparr>localStream = None, peerConnection = None, isInitiator = False, signaling_sent = []\<rparr>"

text \<open>
  The test \<open>client && client.readyState === WebSocket.OPEN\<close> of \<open>sendToClient\<close>,
  for the client registered under \<open>k\<close>.
\<close>

definition is_open :: "clients \<Rightarrow> string \<Rightarrow> bool" where
  "is_open cs k = (case Map_get cs k of Some c \<Rightarrow> readyState c = OPEN | None \<Rightarrow> False)"

text \<open>The ids and ready states of a registry, without the messages sent.\<close>

definition shape :: "clients \<Rightarrow> (string \<times> ready_state) list" where
  "shape cs = map (\<lambda>p. (fst p, readyState (snd p))) cs"

text \<open>The \<open>case\<close> labels of the \<open>switch\<close> in \<open>handleMessage\<close>.\<close>

fun recognised :: "json \<Rightarrow> bool" where
  "recognised (JObj ps) =
     (map_of ps ''type'' \<in> forwarded_types
      \<or> map_of ps ''type'' = Some (JStr ''join-room'')
      \<or> map_of ps ''type'' = Some (JStr ''list-peers''))"
| "recognised _ = False"

text \<open>
  Registries for the example_registries: one, two and three connections made on the empty
  registry, with no frame received yet. The random numbers drawn are 0.5 and 0.25, then
  0.75 and 0.125, then 0.375 and 0.625, which \<open>toString(36)\<close> writes \<open>0.i\<close>,
  \<open>0.9\<close>, \<open>0.r\<close>, \<open>0.4i\<close>, \<open>0.di\<close>, \<open>0.mi\<close>; the ids are \<open>i9\<close>,
  \<open>r4i\<close> and \<open>dimi\<close>.
\<close>

definition one_client :: clients where
  "one_client = snd (on_connection ''0.i'' ''0.9'' [])"

definition two_clients :: clients where
  "two_clients = snd (on_connection ''0.r'' ''0.4i'' one_client)"

definition three_clients :: clients where
  "three_clients = snd (on_connection ''0.di'' ''0.mi'' two_clients)"

text \<open>
  A browser for the example_registries: it accepts every call and gives fixed descriptions.
\<close>

fun accepting_browser :: rtc where
  "accepting_browser calls CreateOffer = Inr (JStr ''local-offer-sdp'')"
| "accepting_browser calls CreateAnswer = Inr (JStr ''local-answer-sdp'')"
| "accepting_browser calls _ = Inr JNull"

section \<open>The registry\<close>

lemma Map_delete_absent: "k \<notin> set (Map_keys cs) \<Longrightarrow> Map_delete k cs = cs"
  unfolding Map_delete_def Map_keys_def by (induction cs) auto

text \<open>
  C9. Unregistering is \<open>clients.delete(clientId)\<close>, the first statement of the close
  handler. For every registry and id, deleting twice gives the registry that deleting
  once gives, and deleting an id that is not registered returns the registry as it
  was. The operation has no error result.
\<close>

theorem unregister_idempotent:
  "Map_delete k (Map_delete k cs) = Map_delete k cs
   \<and> (k \<notin> set (Map_keys cs) \<longrightarrow> Map_delete k cs = cs)"
  using Map_delete_absent by (simp add: Map_delete_def)

theorem unregister_idempotent_witness:
  "Map_delete ''b'' (Map_delete ''b'' [(''a'', \<lparr>readyState = OPEN, sent = []\<rparr>)])
     = Map_delete ''b'' [(''a'', \<lparr>readyState = OPEN, sent = []\<rparr>)]
   \<and> ''b'' \<notin> set (Map_keys [(''a'', \<lparr>readyState = OPEN, sent = []\<rparr>)])
   \<and> Map_delete ''b'' [(''a'', \<lparr>readyState = OPEN, sent = []\<rparr>)]
       = [(''a'', \<lparr>readyState = OPEN, sent = []\<rparr>)]"
  using unregister_idempotent [of "''b''" "[(''a'', \<lparr>readyState = OPEN, sent = []\<rparr>)]"]
  by (simp add: Map_keys_def)


section \<open>Sending\<close>

lemma map_of_send_key:
  "map_of (map (\<lambda>p. if fst p = k then (fst p, ws_send m (snd p)) else p) cs) r
   = (if r = k then map_option (ws_send m) (map_of cs r) else map_of cs r)"
  by (induction cs) auto

lemma map_of_send_open:
  "map_of (map (\<lambda>p. if fst p \<noteq> c \<and> readyState (snd p) = OPEN
                     then (fst p, ws_send m (snd p)) else p) cs) r
   = map_option (\<lambda>w. if r \<noteq> c \<and> readyState w = OPEN then ws_send m w else w) (map_of cs r)"
  by (induction cs) auto

lemma outbox_sendToClient:
  "outbox (sendToClient t m cs) r = outbox cs r @ (if t = JStr r \<and> is_open cs r then [m] else [])"
proof (cases t)
  case (JStr k)
  show ?thesis
  proof (cases "is_open cs k")
    case True
    then have "sendToClient t m cs = map (\<lambda>p. if fst p = k then (fst p, ws_send m (snd p)) else p) cs"
      using JStr by (auto simp: is_open_def split: option.splits)
    then show ?thesis using True JStr
      by (auto simp: outbox_def Map_get_def map_of_send_key is_open_def ws_send_def split: option.splits)
  next
    case False
    then have "sendToClient t m cs = cs"
      using JStr by (auto simp: is_open_def split: option.splits)
    then show ?thesis using False JStr by auto
  qed
qed (simp_all add: outbox_def)

lemma outbox_broadcast:
  "outbox (broadcast m c cs) r = outbox cs r @ (if r \<noteq> c \<and> is_open cs r then [m] else [])"
  by (auto simp: outbox_def is_open_def Map_get_def broadcast_def map_of_send_open ws_send_def split: option.splits)

lemma shape_sendToClient: "shape (sendToClient t m cs) = shape cs"
  by (cases t) (auto simp: shape_def ws_send_def split: option.splits)

lemma shape_broadcast: "shape (broadcast m c cs) = shape cs"
  by (auto simp: shape_def broadcast_def ws_send_def)

lemma shape_keys: "Map_keys cs = map fst (shape cs)"
  by (simp add: shape_def Map_keys_def comp_def)

lemma shape_is_open: "is_open cs k = (map_of (shape cs) k = Some OPEN)"
  unfolding is_open_def Map_get_def shape_def by (induction cs) auto

lemma shape_on_message: "shape (on_message c f cs) = shape cs"
proof (cases f)
  case (Parsed v)
  then show ?thesis
    by (cases v) (auto simp: on_message_def shape_sendToClient shape_broadcast simp del: sendToClient.simps split: option.splits)
qed (simp add: on_message_def)

lemma outbox_on_message_prefix:
  "outbox (on_message c f cs) r
     = outbox cs r @ drop (length (outbox cs r)) (outbox (on_message c f cs) r)"
proof (cases f)
  case (Parsed v)
  then show ?thesis
    by (cases v) (auto simp: on_message_def outbox_sendToClient outbox_broadcast simp del: sendToClient.simps split: option.splits)
qed (simp add: on_message_def)

lemma delivered_shape:
  assumes "shape cs' = shape cs"
  shows "drop (length (outbox cs' r)) (outbox (on_message c f cs') r)
           = drop (length (outbox cs r)) (outbox (on_message c f cs) r)"
proof (cases f)
  case (Parsed v)
  have o: "is_open cs' k = is_open cs k" for k
    using assms by (simp add: shape_is_open)
  have k: "Map_keys cs' = Map_keys cs"
    using assms by (simp add: shape_keys)
  from Parsed show ?thesis
    by (cases v) (auto simp: on_message_def outbox_sendToClient outbox_broadcast o k simp del: sendToClient.simps split: option.splits)
qed (simp add: on_message_def)

lemma outbox_on_frames:
  "outbox (on_frames evs cs) r
     = outbox cs r
       @ concat (map (\<lambda>ev. drop (length (outbox cs r))
                              (outbox (on_message (fst ev) (snd ev) cs) r)) evs)"
proof (induction evs arbitrary: cs)
  case Nil
  show ?case by simp
next
  case (Cons ev evs)
  let ?cs1 = "on_message (fst ev) (snd ev) cs"
  have sh: "shape ?cs1 = shape cs" by (rule shape_on_message)
  have "outbox (on_frames (ev # evs) cs) r
          = outbox ?cs1 r
            @ concat (map (\<lambda>g. drop (length (outbox ?cs1 r))
                                  (outbox (on_message (fst g) (snd g) ?cs1) r)) evs)"
    using Cons.IH [of ?cs1] by simp
  also have "\<dots> = outbox ?cs1 r
            @ concat (map (\<lambda>g. drop (length (outbox cs r))
                                  (outbox (on_message (fst g) (snd g) cs) r)) evs)"
    using delivered_shape [OF sh] by simp
  also have "\<dots> = outbox cs r
            @ concat (map (\<lambda>g. drop (length (outbox cs r))
                                  (outbox (on_message (fst g) (snd g) cs) r)) (ev # evs))"
    using outbox_on_message_prefix [of "fst ev" "snd ev" cs r] by simp
  finally show ?case .
qed

lemma on_frames_one_sender: "on_frames (map (Pair c) frames) cs = on_messages c frames cs"
  by (induction frames arbitrary: cs) simp_all

text \<open>
  C7. The frames of one client are handled one after the other, in the order received,
  and each send appends to the recipient's socket. So for every recipient, what the
  frames \<open>m1, ..., mn\<close> of a client deliver to it is, in this order, what \<open>m1\<close>
  delivers, then what \<open>m2\<close> delivers, and so on: the forwarded frames keep the
  sender's order. The same holds when frames of other clients are handled in between:
  whatever the order in which the frames of several clients arrive, each recipient is
  sent what each frame delivers in that order of arrival, so the frames of any one
  sender stay in their order; between two senders the order is the order of arrival
  and nothing more.
\<close>

theorem per_sender_order:
  "outbox (on_messages c frames cs) r
     = outbox cs r
       @ concat (map (\<lambda>f. drop (length (outbox cs r)) (outbox (on_message c f cs) r)) frames)
   \<and> outbox (on_frames evs cs) r
     = outbox cs r
       @ concat (map (\<lambda>ev. drop (length (outbox cs r))
                              (outbox (on_message (fst ev) (snd ev) cs) r)) evs)"
proof -
  have "outbox (on_messages c frames cs) r
     = outbox cs r
       @ concat (map (\<lambda>f. drop (length (outbox cs r)) (outbox (on_message c f cs) r)) frames)"
    using outbox_on_frames [of "map (Pair c) frames" cs r]
    by (simp add: on_frames_one_sender comp_def)
  then show ?thesis using outbox_on_frames [of evs cs r] by simp
qed

section \<open>Candidates\<close>

lemma outbox_handle_forward:
  assumes "map_of ps ''type'' \<in> forwarded_types" "map_of ps ''to'' = Some (JStr t)" "t \<noteq> []"
  shows "outbox (on_message s (Parsed (JObj ps)) cs) k
           = outbox cs k @ (if k = t \<and> is_open cs t
                            then [JObj (set_prop ''from'' (JStr s) ps)] else [])"
  using assms by (auto simp: on_message_def outbox_sendToClient simp del: sendToClient.simps)

lemma is_open_on_message: "is_open (on_message s f cs) k = is_open cs k"
  by (simp add: shape_is_open shape_on_message)

text \<open>
  C1, as the code has it. The relay has no candidate buffer and no session state: an
  \<open>ice-candidate\<close> frame whose \<open>to\<close> is a non-empty string that names a
  registered client with an open socket is sent to that client at once, with \<open>from\<close>
  set to the sender's id. So a run of such frames from one sender reaches the target
  once each and in arrival order, and no other client is sent anything. In the manager,
  a candidate received while a peer connection exists is handed to
  \<open>addIceCandidate\<close> at once. The empty string is not a target: \<open>if (message.to)\<close>
  is false for it, and the statement is about non-empty ids only.
\<close>

theorem candidates_forwarded_at_once:
  assumes "is_open cs t" and "t \<noteq> []"
    and "\<forall>ps \<in> set cands. map_of ps ''type'' = Some (JStr ''ice-candidate'')
                          \<and> map_of ps ''to'' = Some (JStr t)"
  shows "outbox (on_messages s (map (\<lambda>ps. Parsed (JObj ps)) cands) cs) t
           = outbox cs t @ map (\<lambda>ps. JObj (set_prop ''from'' (JStr s) ps)) cands
         \<and> (\<forall>k. k \<noteq> t \<longrightarrow>
              outbox (on_messages s (map (\<lambda>ps. Parsed (JObj ps)) cands) cs) k = outbox cs k)
         \<and> (\<forall>browser c m calls. peerConnection m = Some calls \<longrightarrow>
              snd (handleIceCandidate browser c m)
                = m\<lparr>peerConnection := Some (calls @ [AddIceCandidate c])\<rparr>)"
proof -
  have fw: "outbox (on_messages s (map (\<lambda>ps. Parsed (JObj ps)) cands) cs) k
              = outbox cs k @ (if k = t then map (\<lambda>ps. JObj (set_prop ''from'' (JStr s) ps)) cands else [])"
    for k
    using assms(1,3)
  proof (induction cands arbitrary: cs)
    case Nil
    show ?case by simp
  next
    case (Cons ps rest)
    have ty: "map_of ps ''type'' \<in> forwarded_types" and to: "map_of ps ''to'' = Some (JStr t)"
      using Cons.prems(2) by (simp_all add: forwarded_types_def)
    have op: "is_open (on_message s (Parsed (JObj ps)) cs) t"
      using Cons.prems(1) by (simp add: is_open_on_message)
    have "outbox (on_messages s (map (\<lambda>ps. Parsed (JObj ps)) (ps # rest)) cs) k
            = outbox (on_message s (Parsed (JObj ps)) cs) k
              @ (if k = t then map (\<lambda>ps. JObj (set_prop ''from'' (JStr s) ps)) rest else [])"
      using Cons.IH [OF op] Cons.prems(2) by simp
    then show ?case
      using outbox_handle_forward [OF ty to assms(2), of s cs k] Cons.prems(1) by simp
  qed
  have cl: "snd (handleIceCandidate browser c m)
              = m\<lparr>peerConnection := Some (calls @ [AddIceCandidate c])\<rparr>"
    if "peerConnection m = Some calls" for browser c m calls
    using that by (simp add: handleIceCandidate_def pc_invoke_def split: sum.splits)
  show ?thesis using fw cl by simp
qed

lemma example_registries:
  "one_client = [(''i9'', \<lparr>readyState = OPEN, sent = [JObj [(''type'', JStr ''client-id''), (''id'', JStr ''i9'')]]\<rparr>)]"
  "two_clients = [(''i9'', \<lparr>readyState = OPEN, sent = [JObj [(''type'', JStr ''client-id''), (''id'', JStr ''i9'')]]\<rparr>),
     (''r4i'', \<lparr>readyState = OPEN, sent = [JObj [(''type'', JStr ''client-id''), (''id'', JStr ''r4i'')]]\<rparr>)]"
  "three_clients = [(''i9'', \<lparr>readyState = OPEN, sent = [JObj [(''type'', JStr ''client-id''), (''id'', JStr ''i9'')]]\<rparr>),
     (''r4i'', \<lparr>readyState = OPEN, sent = [JObj [(''type'', JStr ''client-id''), (''id'', JStr ''r4i'')]]\<rparr>),
     (''dimi'', \<lparr>readyState = OPEN, sent = [JObj [(''type'', JStr ''client-id''), (''id'', JStr ''dimi'')]]\<rparr>)]"
  by (simp_all add: one_client_def two_clients_def three_clients_def on_connection_def generateClientId_def substring_def Let_def)

text \<open>
  C1 as stated fails: two clients have connected and no offer or answer has been
  relayed, so no remote description can be set; the candidate sent by \<open>i9\<close> to
  \<open>r4i\<close> is in the socket of \<open>r4i\<close> as soon as the frame is handled.
\<close>

theorem candidate_buffered_counterexample:
  "outbox two_clients ''r4i'' = [JObj [(''type'', JStr ''client-id''), (''id'', JStr ''r4i'')]]
   \<and> outbox (on_message ''i9''
        (Parsed (JObj [(''type'', JStr ''ice-candidate''), (''to'', JStr ''r4i''),
                       (''candidate'', JStr ''candidate:1'')])) two_clients) ''r4i''
     = [JObj [(''type'', JStr ''client-id''), (''id'', JStr ''r4i'')],
        JObj [(''type'', JStr ''ice-candidate''), (''to'', JStr ''r4i''),
              (''candidate'', JStr ''candidate:1''), (''from'', JStr ''i9'')]]"
  by (simp add: example_registries on_message_def outbox_def Map_get_def forwarded_types_def ws_send_def)

theorem candidates_forwarded_at_once_witness:
  "is_open two_clients ''r4i'' \<and> ''r4i'' \<noteq> []
   \<and> outbox (on_messages ''i9''
        [Parsed (JObj [(''type'', JStr ''ice-candidate''), (''to'', JStr ''r4i''), (''candidate'', JStr ''candidate:1'')]),
         Parsed (JObj [(''type'', JStr ''ice-candidate''), (''to'', JStr ''r4i''), (''candidate'', JStr ''candidate:2'')])]
        two_clients) ''r4i''
     = [JObj [(''type'', JStr ''client-id''), (''id'', JStr ''r4i'')],
        JObj [(''type'', JStr ''ice-candidate''), (''to'', JStr ''r4i''), (''candidate'', JStr ''candidate:1''), (''from'', JStr ''i9'')],
        JObj [(''type'', JStr ''ice-candidate''), (''to'', JStr ''r4i''), (''candidate'', JStr ''candidate:2''), (''from'', JStr ''i9'')]]
   \<and> peerConnection (createPeerConnection new_manager) = Some []
   \<and> snd (handleIceCandidate accepting_browser (Some (JStr ''candidate:1''))
            (createPeerConnection new_manager))
     = (createPeerConnection new_manager)
         \<lparr>peerConnection := Some [AddIceCandidate (Some (JStr ''candidate:1''))]\<rparr>"
proof -
  have p: "peerConnection (createPeerConnection new_manager) = Some []"
    by (simp add: createPeerConnection_def new_manager_def)
  have o: "is_open two_clients ''r4i''"
    by (simp add: example_registries is_open_def Map_get_def)
  have n: "''r4i'' \<noteq> []" by simp
  have c: "\<forall>ps \<in> set [[(''type'', JStr ''ice-candidate''), (''to'', JStr ''r4i''), (''candidate'', JStr ''candidate:1'')],
                        [(''type'', JStr ''ice-candidate''), (''to'', JStr ''r4i''), (''candidate'', JStr ''candidate:2'')]].
             map_of ps ''type'' = Some (JStr ''ice-candidate'') \<and> map_of ps ''to'' = Some (JStr ''r4i'')"
    by simp
  show ?thesis
    using candidates_forwarded_at_once [OF o n c, of "''i9''"] o p
    by (simp add: outbox_def Map_get_def example_registries)
qed


section \<open>The sender field\<close>

lemma set_prop_reads_back: "map_of (set_prop k v ps) k = Some v"
  by (induction ps) auto

text \<open>
  The targeted path stamps the frame: what the target is sent has \<open>from\<close> equal to
  the sender's id, whatever \<open>from\<close> the client wrote.
\<close>

lemma targeted_from_is_sender:
  assumes "map_of ps ''type'' \<in> forwarded_types" "map_of ps ''to'' = Some (JStr t)" "t \<noteq> []"
    and "is_open cs t"
  shows "\<exists>qs. outbox (on_message s (Parsed (JObj ps)) cs) t = outbox cs t @ [JObj qs]
              \<and> map_of qs ''from'' = Some (JStr s)"
  using outbox_handle_forward [OF assms(1,2,3), of s cs t] assms(4)
  by (simp add: set_prop_reads_back)

text \<open>
  C3. The relay should stamp every delivered frame with the sender's id. On the
  broadcast path it does not: client \<open>i9\<close> sends an offer without \<open>to\<close> and with
  \<open>from\<close> set to \<open>dimi\<close>, and client \<open>r4i\<close> is sent the frame as it came,
  \<open>from\<close> still \<open>dimi\<close>.
\<close>

theorem broadcast_keeps_client_from:
  "outbox (on_message ''i9''
      (Parsed (JObj [(''type'', JStr ''offer''), (''from'', JStr ''dimi''), (''offer'', JStr ''sdp'')]))
      three_clients) ''r4i''
   = [JObj [(''type'', JStr ''client-id''), (''id'', JStr ''r4i'')],
      JObj [(''type'', JStr ''offer''), (''from'', JStr ''dimi''), (''offer'', JStr ''sdp'')]]"
  by (simp add: example_registries on_message_def outbox_def Map_get_def forwarded_types_def broadcast_def ws_send_def)

section \<open>Frames the relay drops\<close>

text \<open>
  C4, as the code has it. A frame that \<open>JSON.parse\<close> rejects, and a decoded frame
  whose type is none of the five the \<open>switch\<close> names (or that is not an object),
  leaves the registry and every socket as they were: nothing is sent to anyone, the
  sender included, and the sender stays registered with its socket open.
\<close>

theorem malformed_frame_dropped:
  "on_message s Throws cs = cs
   \<and> (\<not> recognised v \<longrightarrow> on_message s (Parsed v) cs = cs)"
  by (cases v) (simp_all add: on_message_def)

theorem malformed_frame_dropped_witness:
  "\<not> recognised (JObj [(''type'', JStr ''hello''), (''to'', JStr ''r4i'')])
   \<and> on_message ''i9'' (Parsed (JObj [(''type'', JStr ''hello''), (''to'', JStr ''r4i'')])) two_clients
       = two_clients
   \<and> on_message ''i9'' Throws two_clients = two_clients"
  using malformed_frame_dropped [of "''i9''" two_clients "JObj [(''type'', JStr ''hello''), (''to'', JStr ''r4i'')]"]
  by (simp add: forwarded_types_def)

text \<open>
  C4 as stated fails: after a frame that is not JSON, and after a frame of unknown
  type, the sender has been sent its \<open>client-id\<close> frame only, and no error envelope.
\<close>

theorem error_envelope_counterexample:
  "outbox (on_message ''i9'' Throws one_client) ''i9''
     = [JObj [(''type'', JStr ''client-id''), (''id'', JStr ''i9'')]]
   \<and> outbox (on_message ''i9'' (Parsed (JObj [(''type'', JStr ''hello'')])) one_client) ''i9''
     = [JObj [(''type'', JStr ''client-id''), (''id'', JStr ''i9'')]]"
  by (simp add: example_registries on_message_def outbox_def Map_get_def forwarded_types_def)

text \<open>
  C6, as the code has it. An offer, answer or candidate whose \<open>to\<close> is a
  non-empty string that names an id with no registered open socket leaves the registry
  and every socket as they were: nothing is sent to the sender or to anyone else, and
  nothing is kept for a retry. The empty string is not a target: \<open>if (message.to)\<close>
  is false for it, and the statement is about non-empty ids only.
\<close>

theorem unknown_target_dropped:
  assumes "map_of ps ''type'' \<in> forwarded_types" "map_of ps ''to'' = Some (JStr t)" "t \<noteq> []"
    and "\<not> is_open cs t"
  shows "on_message s (Parsed (JObj ps)) cs = cs"
  using assms by (auto simp: on_message_def is_open_def split: option.splits)

theorem unknown_target_dropped_witness:
  "map_of [(''type'', JStr ''offer''), (''to'', JStr ''zz''), (''offer'', JStr ''sdp'')] ''type'' \<in> forwarded_types
   \<and> \<not> is_open one_client ''zz''
   \<and> on_message ''i9'' (Parsed (JObj [(''type'', JStr ''offer''), (''to'', JStr ''zz''), (''offer'', JStr ''sdp'')])) one_client
       = one_client"
proof -
  have a: "map_of [(''type'', JStr ''offer''), (''to'', JStr ''zz''), (''offer'', JStr ''sdp'')] ''type'' \<in> forwarded_types"
    by (simp add: forwarded_types_def)
  have b: "map_of [(''type'', JStr ''offer''), (''to'', JStr ''zz''), (''offer'', JStr ''sdp'')] ''to'' = Some (JStr ''zz'')"
    by simp
  have c: "''zz'' \<noteq> []" by simp
  have d: "\<not> is_open one_client ''zz''"
    by (simp add: example_registries is_open_def Map_get_def)
  show ?thesis using unknown_target_dropped [OF a b c d, of "''i9''"] a d by simp
qed

text \<open>
  C6 as stated fails: \<open>i9\<close> is the only client and sends an offer to \<open>zz\<close>; it
  has been sent its \<open>client-id\<close> frame only, and no error envelope.
\<close>

theorem unknown_target_counterexample:
  "outbox (on_message ''i9''
      (Parsed (JObj [(''type'', JStr ''offer''), (''to'', JStr ''zz''), (''offer'', JStr ''sdp'')]))
      one_client) ''i9''
   = [JObj [(''type'', JStr ''client-id''), (''id'', JStr ''i9'')]]"
  by (simp add: example_registries on_message_def outbox_def Map_get_def forwarded_types_def)

section \<open>Disconnecting\<close>

lemma Map_get_delete: "Map_get (Map_delete a cs) k = (if k = a then None else Map_get cs k)"
  unfolding Map_get_def Map_delete_def by (induction cs) auto

lemma Map_get_broadcast_None: "Map_get (broadcast m c cs) k = None \<longleftrightarrow> Map_get cs k = None"
  by (simp add: Map_get_def broadcast_def map_of_send_open)

lemma outbox_delete: "k \<noteq> a \<Longrightarrow> outbox (Map_delete a cs) k = outbox cs k"
  by (simp add: outbox_def Map_get_delete)

lemma is_open_delete: "k \<noteq> a \<Longrightarrow> is_open (Map_delete a cs) k = is_open cs k"
  by (simp add: is_open_def Map_get_delete)

text \<open>
  C5, as the code has it. When the socket of client \<open>a\<close> closes, \<open>a\<close> is no
  longer registered, and every other client is sent exactly one frame
  \<open>{type: 'peer-disconnected', peerId: a}\<close> if its socket is open and nothing
  otherwise. The relay has no sessions: the frame goes to the clients that never
  exchanged a message with \<open>a\<close> as well.
\<close>

theorem disconnect_notifies_all:
  "Map_get (on_close a cs) a = None
   \<and> (\<forall>k. k \<noteq> a \<longrightarrow>
        outbox (on_close a cs) k
          = outbox cs k
            @ (if is_open cs k
               then [JObj [(''type'', JStr ''peer-disconnected''), (''peerId'', JStr a)]]
               else []))"
proof -
  have gone: "Map_get (on_close a cs) a = None"
    by (simp add: on_close_def Map_get_broadcast_None Map_get_delete)
  have told: "outbox (on_close a cs) k
          = outbox cs k
            @ (if is_open cs k
               then [JObj [(''type'', JStr ''peer-disconnected''), (''peerId'', JStr a)]]
               else [])" if "k \<noteq> a" for k
    using that by (simp add: on_close_def outbox_broadcast outbox_delete is_open_delete)
  show ?thesis using gone told by blast
qed

theorem disconnect_notifies_all_witness:
  "''dimi'' \<noteq> ''i9'' \<and> is_open three_clients ''dimi''
   \<and> Map_get (on_close ''i9'' three_clients) ''i9'' = None
   \<and> outbox (on_close ''i9'' three_clients) ''dimi''
       = [JObj [(''type'', JStr ''client-id''), (''id'', JStr ''dimi'')],
          JObj [(''type'', JStr ''peer-disconnected''), (''peerId'', JStr ''i9'')]]"
  using disconnect_notifies_all [of "''i9''" three_clients]
  by (simp add: example_registries is_open_def outbox_def Map_get_def)

text \<open>
  C5 as stated fails: three clients have connected and none has sent a frame, so
  \<open>dimi\<close> has no session with \<open>i9\<close>; when \<open>i9\<close> disconnects, \<open>dimi\<close> is
  sent a frame, and its type is \<open>peer-disconnected\<close>, not \<open>bye\<close>.
\<close>

theorem disconnect_bye_counterexample:
  "outbox (on_close ''i9'' three_clients) ''dimi''
     = [JObj [(''type'', JStr ''client-id''), (''id'', JStr ''dimi'')],
        JObj [(''type'', JStr ''peer-disconnected''), (''peerId'', JStr ''i9'')]]"
  by (simp add: example_registries on_close_def Map_delete_def broadcast_def outbox_def Map_get_def ws_send_def)

section \<open>Client ids\<close>

text \<open>
  C8. Ids of connected clients should be pairwise distinct. The id is built from two
  random draws and stored without a look at the registry: when the draws of a second
  connection repeat those of the first (0.5 and 0.25 here), the second client is given
  the id \<open>i9\<close> of the first, which is still connected, and the registry holds one
  entry for the two.
\<close>

theorem generateClientId_collision:
  "fst (on_connection ''0.i'' ''0.9'' []) = ''i9''
   \<and> fst (on_connection ''0.i'' ''0.9'' (snd (on_connection ''0.i'' ''0.9'' []))) = ''i9''
   \<and> Map_keys (snd (on_connection ''0.i'' ''0.9'' (snd (on_connection ''0.i'' ''0.9'' [])))) = [''i9'']"
  by (simp add: on_connection_def generateClientId_def substring_def Let_def Map_keys_def)



section \<open>Offers in the manager\<close>

lemma pending_offer:
  "snd (initiateCall accepting_browser new_manager)
     = \<lparr>localStream = None,
        peerConnection = Some [CreateOffer, SetLocalDescription (JStr ''local-offer-sdp'')],
        isInitiator = True,
        signaling_sent = [JObj [(''type'', JStr ''offer''), (''offer'', JStr ''local-offer-sdp'')]]\<rparr>"
  by (simp add: initiateCall_def new_manager_def createPeerConnection_def pc_invoke_def
        signaling_send_def Let_def)

text \<open>
  C2 as stated fails: the manager has sent its own offer and no answer has come; an
  offer arrives. The manager has no role to consult: it sets the incoming offer as the
  remote description, creates an answer and sends it.
\<close>

theorem glare_offer_accepted_counterexample:
  "handleSignalingMessage accepting_browser
     (Parsed (JObj [(''type'', JStr ''offer''), (''offer'', JStr ''remote-offer-sdp'')]))
     (snd (initiateCall accepting_browser new_manager))
   = (Inr (),
      \<lparr>localStream = None,
       peerConnection =
         Some [CreateOffer, SetLocalDescription (JStr ''local-offer-sdp''),
               SetRemoteDescription (Some (JStr ''remote-offer-sdp'')),
               CreateAnswer, SetLocalDescription (JStr ''local-answer-sdp'')],
       isInitiator = False,
       signaling_sent =
         [JObj [(''type'', JStr ''offer''), (''offer'', JStr ''local-offer-sdp'')],
          JObj [(''type'', JStr ''answer''), (''answer'', JStr ''local-answer-sdp'')]]\<rparr>)"
  by (simp add: pending_offer handleSignalingMessage_def handleOffer_def pc_invoke_def
        signaling_send_def Let_def)

text \<open>
  C2, as the code has it. \<open>handleOffer\<close> looks at no role and at no pending local
  offer. Whatever calls were made on the peer connection before, it clears
  \<open>isInitiator\<close>, and its next call is \<open>setRemoteDescription\<close> with the incoming
  offer; when the browser accepts that call, \<open>createAnswer\<close> and
  \<open>setLocalDescription\<close>, the answer is sent through the signaling channel.
\<close>

theorem handleOffer_unconditional:
  assumes "peerConnection m = Some calls"
  shows "isInitiator (snd (handleOffer browser offer m)) = False
     \<and> (\<exists>rest. peerConnection (snd (handleOffer browser offer m))
                  = Some (calls @ SetRemoteDescription offer # rest))
     \<and> (\<forall>v answer w.
           browser calls (SetRemoteDescription offer) = Inr v
           \<and> browser (calls @ [SetRemoteDescription offer]) CreateAnswer = Inr answer
           \<and> browser (calls @ [SetRemoteDescription offer, CreateAnswer])
                (SetLocalDescription answer) = Inr w
           \<longrightarrow> handleOffer browser offer m
                 = (Inr answer,
                    m\<lparr>peerConnection :=
                        Some (calls @ [SetRemoteDescription offer, CreateAnswer,
                                       SetLocalDescription answer]),
                      isInitiator := False,
                      signaling_sent :=
                        signaling_sent m
                        @ [JObj [(''type'', JStr ''answer''), (''answer'', answer)]]\<rparr>))"
  using assms
  by (auto simp: handleOffer_def pc_invoke_def signaling_send_def Let_def split: sum.splits)

theorem handleOffer_unconditional_witness:
  "peerConnection (snd (initiateCall accepting_browser new_manager))
     = Some [CreateOffer, SetLocalDescription (JStr ''local-offer-sdp'')]
   \<and> handleOffer accepting_browser (Some (JStr ''remote-offer-sdp''))
       (snd (initiateCall accepting_browser new_manager))
     = (Inr (JStr ''local-answer-sdp''),
        \<lparr>localStream = None,
         peerConnection =
           Some [CreateOffer, SetLocalDescription (JStr ''local-offer-sdp''),
                 SetRemoteDescription (Some (JStr ''remote-offer-sdp'')),
                 CreateAnswer, SetLocalDescription (JStr ''local-answer-sdp'')],
         isInitiator = False,
         signaling_sent =
           [JObj [(''type'', JStr ''offer''), (''offer'', JStr ''local-offer-sdp'')],
            JObj [(''type'', JStr ''answer''), (''answer'', JStr ''local-answer-sdp'')]]\<rparr>)"
proof -
  have p: "peerConnection (snd (initiateCall accepting_browser new_manager))
     = Some [CreateOffer, SetLocalDescription (JStr ''local-offer-sdp'')]"
    by (simp add: pending_offer)
  show ?thesis
    using handleOffer_unconditional [OF p, of accepting_browser "Some (JStr ''remote-offer-sdp'')"] p
    by (simp add: pending_offer)
qed

text \<open>
  C10. With no peer connection yet, an \<open>answer\<close> or \<open>ice-candidate\<close> message is
  rejected with the error \<open>Peer connection not created\<close> and the manager is left as
  it was, so the message is not buffered. An \<open>offer\<close> message creates the peer
  connection instead, and is handled to the end, the answer sent, whenever the browser
  accepts the three calls made on the new connection.
\<close>

theorem signaling_before_peer_connection:
  assumes "peerConnection m = None"
  shows "(map_of ps ''type'' = Some (JStr ''answer'')
            \<or> map_of ps ''type'' = Some (JStr ''ice-candidate'')
          \<longrightarrow> handleSignalingMessage browser (Parsed (JObj ps)) m
                = (Inl (Error ''Peer connection not created''), m))
     \<and> (map_of ps ''type'' = Some (JStr ''offer'')
          \<longrightarrow> peerConnection (snd (handleSignalingMessage browser (Parsed (JObj ps)) m)) \<noteq> None)
     \<and> (\<forall>v answer w.
           map_of ps ''type'' = Some (JStr ''offer'')
           \<and> peerConnection (createPeerConnection m) = Some calls
           \<and> browser calls (SetRemoteDescription (map_of ps ''offer'')) = Inr v
           \<and> browser (calls @ [SetRemoteDescription (map_of ps ''offer'')]) CreateAnswer = Inr answer
           \<and> browser (calls @ [SetRemoteDescription (map_of ps ''offer''), CreateAnswer])
                (SetLocalDescription answer) = Inr w
           \<longrightarrow> handleSignalingMessage browser (Parsed (JObj ps)) m
                 = (Inr (),
                    m\<lparr>peerConnection :=
                        Some (calls @ [SetRemoteDescription (map_of ps ''offer''), CreateAnswer,
                                       SetLocalDescription answer]),
                      isInitiator := False,
                      signaling_sent :=
                        signaling_sent m
                        @ [JObj [(''type'', JStr ''answer''), (''answer'', answer)]]\<rparr>))"
  using assms
  by (auto simp: handleSignalingMessage_def handleAnswer_def handleIceCandidate_def
        handleOffer_def createPeerConnection_def pc_invoke_def signaling_send_def Let_def
        split: sum.splits option.splits)


theorem signaling_before_peer_connection_witness:
  "peerConnection new_manager = None
   \<and> handleSignalingMessage accepting_browser
         (Parsed (JObj [(''type'', JStr ''answer''), (''answer'', JStr ''remote-answer-sdp'')]))
         new_manager
       = (Inl (Error ''Peer connection not created''), new_manager)
   \<and> handleSignalingMessage accepting_browser
         (Parsed (JObj [(''type'', JStr ''ice-candidate''), (''candidate'', JStr ''candidate:1'')]))
         new_manager
       = (Inl (Error ''Peer connection not created''), new_manager)
   \<and> handleSignalingMessage accepting_browser
         (Parsed (JObj [(''type'', JStr ''offer''), (''offer'', JStr ''remote-offer-sdp'')]))
         new_manager
       = (Inr (),
          \<lparr>localStream = None,
           peerConnection =
             Some [SetRemoteDescription (Some (JStr ''remote-offer-sdp'')), CreateAnswer,
                   SetLocalDescription (JStr ''local-answer-sdp'')],
           isInitiator = False,
           signaling_sent =
             [JObj [(''type'', JStr ''answer''), (''answer'', JStr ''local-answer-sdp'')]]\<rparr>)"
proof -
  have n: "peerConnection new_manager = None"
    by (simp add: new_manager_def)
  have c: "peerConnection (createPeerConnection new_manager) = Some []"
    by (simp add: createPeerConnection_def new_manager_def)
  show ?thesis
    using n
      signaling_before_peer_connection [OF n,
        of "[(''type'', JStr ''answer''), (''answer'', JStr ''remote-answer-sdp'')]"
           accepting_browser "[]"]
      signaling_before_peer_connection [OF n,
        of "[(''type'', JStr ''ice-candidate''), (''candidate'', JStr ''candidate:1'')]"
           accepting_browser "[]"]
      signaling_before_peer_connection [OF n,
        of "[(''type'', JStr ''offer''), (''offer'', JStr ''remote-offer-sdp'')]"
           accepting_browser "[]"] c
    by (simp add: new_manager_def)
qed

end
